theory Spec2Isabelle
  imports Complex_Main "HOL-Library.Product_Lexorder" "HOL-Library.List_Lexorder"
    "HOL-Library.Char_ord" "HOL-Library.Multiset"
begin

section \<open>Relational data model\<close>

text \<open>
  The tables of \<^verbatim>\<open>create_tables\<close> (src/app/data/generate_synthetic_data.py), one record
  per table, fields named after the SQL aliases the queries use (\<open>ch\<close>, \<open>s\<close>, \<open>ca\<close>,
  \<open>us\<close>, \<open>e\<close>, \<open>c\<close>). Only the columns that some query reads are kept. A nullable column
  is an \<open>option\<close> (\<open>None\<close> is SQL NULL). \<open>INTEGER\<close> is \<open>int\<close>, \<open>DECIMAL(12,2)\<close> is an
  exact rational, a \<open>TIMESTAMP\<close> is a number of seconds and a \<open>DATE\<close> a number of days.
  The ORM schema of src/app/models/database.py, which the SQL of the hourly DAG is
  written against, names the same columns \<open>channel_id\<close>/\<open>channel_name\<close>,
  \<open>segment_id\<close>/\<open>segment_name\<close>, \<open>campaign_id\<close>/\<open>spend_to_date\<close>,
  \<open>event_id\<close>/\<open>event_name\<close>/\<open>event_timestamp\<close> and
  \<open>conversion_type\<close>/\<open>conversion_value\<close>/\<open>conversion_timestamp\<close>.
\<close>

type_synonym date = int
type_synonym timestamp = int

definition DATE :: "timestamp \<Rightarrow> date" where
  "DATE ts = ts div 86400"

definition HOUR :: "timestamp \<Rightarrow> int" where
  "HOUR ts = (ts mod 86400) div 3600"

record channel =
  ch_id :: int
  ch_name :: string

record segment =
  s_id :: int
  s_name :: string

record campaign =
  ca_id :: int
  ca_name :: string
  ca_channel_id :: "int option"
  ca_spend :: "rat option"

record user_segment =
  us_user_id :: string
  us_segment_id :: int

record user_event =
  e_id :: int
  e_user_id :: string
  e_name :: string
  e_timestamp :: timestamp
  e_campaign_id :: "int option"
  e_channel_id :: "int option"

record conversion =
  c_id :: int
  c_user_id :: string
  c_type :: string
  c_value :: "rat option"
  c_campaign_id :: "int option"
  c_channel_id :: "int option"
  c_timestamp :: timestamp

record database =
  channels :: "channel list"
  segments :: "segment list"
  campaigns :: "campaign list"
  user_segments :: "user_segment list"
  user_events :: "user_event list"
  conversions :: "conversion list"

section \<open>SQL expressions and clauses\<close>

text \<open>
  A statement either fails (PostgreSQL raises \<open>division by zero\<close> when a non-null
  dividend is divided by a zero divisor) or yields its rows.
\<close>

datatype sql_error = DivisionByZero

text \<open>\<open>SUM\<close> skips NULLs and is NULL when no non-null value is left.\<close>

definition sql_sum :: "rat option list \<Rightarrow> rat option" where
  "sql_sum vs = (case [v. Some v \<leftarrow> vs] of [] \<Rightarrow> None | w # ws \<Rightarrow> Some (sum_list (w # ws)))"

text \<open>The operator \<open>/\<close> is strict: a NULL operand gives NULL before the divisor is looked at.\<close>

definition sql_div :: "rat option \<Rightarrow> rat option \<Rightarrow> sql_error + rat option" where
  "sql_div a b =
     (case a of None \<Rightarrow> Inr None
      | Some x \<Rightarrow> (case b of None \<Rightarrow> Inr None
          | Some y \<Rightarrow> if y = 0 then Inl DivisionByZero else Inr (Some (x / y))))"


definition COALESCE :: "'a option \<Rightarrow> 'a \<Rightarrow> 'a" where
  "COALESCE a d = (case a of None \<Rightarrow> d | Some x \<Rightarrow> x)"

definition NULLIF :: "rat option \<Rightarrow> rat \<Rightarrow> rat option" where
  "NULLIF a z = (case a of None \<Rightarrow> None | Some x \<Rightarrow> if x = z then None else Some x)"

definition count_distinct :: "'a list \<Rightarrow> nat" where
  "count_distinct xs = length (remdups xs)"

text \<open>
  \<open>GROUP BY\<close>: one group per distinct key, holding the rows with that key. SQL leaves
  the order of the groups open; the model lists them in the order \<open>remdups\<close> gives.
\<close>

definition group_by :: "('r \<Rightarrow> 'k) \<Rightarrow> 'r list \<Rightarrow> ('k \<times> 'r list) list" where
  "group_by key rows = map (\<lambda>k. (k, filter (\<lambda>r. key r = k) rows)) (remdups (map key rows))"

text \<open>The select list is evaluated group by group; the first error aborts the statement.\<close>

fun sql_rows :: "('g \<Rightarrow> sql_error + 'r) \<Rightarrow> 'g list \<Rightarrow> sql_error + 'r list" where
  "sql_rows f [] = Inr []"
| "sql_rows f (g # gs) =
     (case f g of Inl e \<Rightarrow> Inl e
      | Inr r \<Rightarrow> (case sql_rows f gs of Inl e \<Rightarrow> Inl e | Inr rs \<Rightarrow> Inr (r # rs)))"

text \<open>\<open>a LEFT JOIN b ON p\<close>: a row of \<open>a\<close> without a partner is kept, padded with NULLs.\<close>

definition left_join :: "('a \<Rightarrow> 'b \<Rightarrow> bool) \<Rightarrow> 'a list \<Rightarrow> 'b list \<Rightarrow> ('a \<times> 'b option) list" where
  "left_join p as bs =
     concat (map (\<lambda>a. case filter (p a) bs of [] \<Rightarrow> [(a, None)]
                          | m # ms \<Rightarrow> map (\<lambda>b. (a, Some b)) (m # ms)) as)"

section \<open>The materialized views of \<^verbatim>\<open>create_materialized_views\<close>\<close>

subsection \<open>Daily campaign performance\<close>

record campaign_performance_row =
  cp_date :: date
  cp_campaign_id :: int
  cp_campaign_name :: string
  cp_channel_id :: int
  cp_channel_name :: string
  cp_conversions :: nat
  cp_total_conversion_value :: "rat option"
  cp_avg_conversion_value :: "rat option"

text \<open>
  \<^verbatim>\<open>FROM conversions c JOIN campaigns ca ON c.campaign_id = ca.id
       JOIN channels ch ON ca.channel_id = ch.id\<close>.
  A join is the list of the partners of each fact, fact by fact. A NULL foreign key
  equals nothing. On a joined row \<open>c.campaign_id = ca.id\<close> and
  \<open>ca.channel_id = ch.id\<close>, so the grouped columns \<open>c.campaign_id\<close> and
  \<open>ca.channel_id\<close> are read from \<open>ca.id\<close> and \<open>ch.id\<close>.
\<close>

definition campaign_join_rows :: "database \<Rightarrow> conversion \<Rightarrow> (conversion \<times> campaign \<times> channel) list" where
  "campaign_join_rows db c =
     [(c, ca, ch). ca \<leftarrow> campaigns db, c_campaign_id c = Some (ca_id ca),
                   ch \<leftarrow> channels db, ca_channel_id ca = Some (ch_id ch)]"

definition campaign_join :: "database \<Rightarrow> (conversion \<times> campaign \<times> channel) list" where
  "campaign_join db = concat (map (campaign_join_rows db) (conversions db))"

text \<open>
  \<^verbatim>\<open>CASE WHEN COUNT(DISTINCT c.user_id) > 0
       THEN SUM(c.value) / COUNT(DISTINCT c.user_id) ELSE 0 END\<close>
\<close>

definition avg_conversion_value :: "nat \<Rightarrow> rat option \<Rightarrow> sql_error + rat option" where
  "avg_conversion_value n tot =
     (if 0 < n then sql_div tot (Some (of_nat n)) else Inr (Some 0))"

definition campaign_performance_select ::
  "(date \<times> int \<times> string \<times> int \<times> string) \<times> (conversion \<times> campaign \<times> channel) list
     \<Rightarrow> sql_error + campaign_performance_row" where
  "campaign_performance_select =
     (\<lambda>((d, cid, cname, chid, chname), g).
        let n = count_distinct (map (\<lambda>(c, ca, ch). c_user_id c) g);
            tot = sql_sum (map (\<lambda>(c, ca, ch). c_value c) g)
        in case avg_conversion_value n tot of
             Inl err \<Rightarrow> Inl err
           | Inr avg \<Rightarrow> Inr \<lparr>cp_date = d, cp_campaign_id = cid, cp_campaign_name = cname,
                 cp_channel_id = chid, cp_channel_name = chname, cp_conversions = n,
                 cp_total_conversion_value = tot, cp_avg_conversion_value = avg\<rparr>)"

definition daily_campaign_performance :: "database \<Rightarrow> sql_error + campaign_performance_row list" where
  "daily_campaign_performance db =
     sql_rows campaign_performance_select
       (group_by (\<lambda>(c, ca, ch). (DATE (c_timestamp c), ca_id ca, ca_name ca, ch_id ch, ch_name ch))
          (campaign_join db))"

subsection \<open>Daily channel performance\<close>








subsection \<open>Segment performance\<close>






subsection \<open>Segment CAC\<close>

record segment_costs_row =
  sc_date :: date
  sc_segment_id :: int
  sc_segment_name :: string
  sc_campaign_id :: int
  sc_daily_spend :: "rat option"

text \<open>
  \<^verbatim>\<open>FROM raw.user_events e JOIN campaigns ca ON e.campaign_id = ca.id
       JOIN user_segments us ON e.user_id = us.user_id
       JOIN segments s ON us.segment_id = s.id\<close>
\<close>

definition segment_costs_join_rows ::
  "database \<Rightarrow> user_event \<Rightarrow> (user_event \<times> campaign \<times> user_segment \<times> segment) list" where
  "segment_costs_join_rows db e =
     [(e, ca, us, s). ca \<leftarrow> campaigns db, e_campaign_id e = Some (ca_id ca),
                      us \<leftarrow> user_segments db, e_user_id e = us_user_id us,
                      s \<leftarrow> segments db, us_segment_id us = s_id s]"

definition segment_costs_join ::
  "database \<Rightarrow> (user_event \<times> campaign \<times> user_segment \<times> segment) list" where
  "segment_costs_join db = concat (map (segment_costs_join_rows db) (user_events db))"

text \<open>
  \<^verbatim>\<open>SUM(ca.spend) / 30.0 AS daily_spend\<close>, grouped by
  \<^verbatim>\<open>DATE(e.timestamp), us.segment_id, s.name, ca.id, ca.spend\<close>: the sum runs over
  every joined row of the group, one per event. The divisor is the literal 30.0.
\<close>

definition daily_spend_of :: "rat option list \<Rightarrow> rat option" where
  "daily_spend_of spends = map_option (\<lambda>x. x / 30) (sql_sum spends)"

definition segment_costs :: "database \<Rightarrow> segment_costs_row list" where
  "segment_costs db =
     map (\<lambda>((d, sid, sname, caid, spend), g).
            \<lparr>sc_date = d, sc_segment_id = sid, sc_segment_name = sname, sc_campaign_id = caid,
             sc_daily_spend = daily_spend_of (map (\<lambda>(e, ca, us, s). ca_spend ca) g)\<rparr>)
       (group_by (\<lambda>(e, ca, us, s). (DATE (e_timestamp e), us_segment_id us, s_name s, ca_id ca, ca_spend ca))
          (segment_costs_join db))"

record segment_acquisitions_row =
  sa_date :: date
  sa_segment_id :: int
  sa_acquisitions :: nat

text \<open>
  \<^verbatim>\<open>FROM conversions c JOIN user_segments us ON c.user_id = us.user_id
     WHERE c.type = 'purchase' GROUP BY DATE(c.timestamp), us.segment_id\<close>
\<close>

definition acquisitions_join_rows :: "database \<Rightarrow> conversion \<Rightarrow> (conversion \<times> user_segment) list" where
  "acquisitions_join_rows db c = [(c, us). us \<leftarrow> user_segments db, c_user_id c = us_user_id us]"

definition acquisitions_join :: "database \<Rightarrow> (conversion \<times> user_segment) list" where
  "acquisitions_join db =
     filter (\<lambda>(c, us). c_type c = ''purchase'')
       (concat (map (acquisitions_join_rows db) (conversions db)))"

definition segment_acquisitions :: "database \<Rightarrow> segment_acquisitions_row list" where
  "segment_acquisitions db =
     map (\<lambda>((d, sid), g).
            \<lparr>sa_date = d, sa_segment_id = sid,
             sa_acquisitions = count_distinct (map (\<lambda>(c, us). c_user_id c) g)\<rparr>)
       (group_by (\<lambda>(c, us). (DATE (c_timestamp c), us_segment_id us)) (acquisitions_join db))"

record segment_cac_row =
  scac_date :: date
  scac_segment_id :: int
  scac_segment_name :: string
  scac_cac :: "rat option"

text \<open>
  \<^verbatim>\<open>CASE WHEN COALESCE(sa.acquisitions, 0) > 0
       THEN SUM(sc.daily_spend) / sa.acquisitions ELSE 0 END\<close>
\<close>

definition cac_of :: "nat option \<Rightarrow> rat option \<Rightarrow> sql_error + rat option" where
  "cac_of acq spend =
     (if 0 < COALESCE acq 0 then sql_div spend (map_option of_nat acq) else Inr (Some 0))"

definition segment_cac_select ::
  "(date \<times> int \<times> string \<times> nat option) \<times> (segment_costs_row \<times> segment_acquisitions_row option) list
     \<Rightarrow> sql_error + segment_cac_row" where
  "segment_cac_select =
     (\<lambda>((d, sid, sname, acq), g).
        case cac_of acq (sql_sum (map (\<lambda>(sc, sa). sc_daily_spend sc) g)) of
          Inl err \<Rightarrow> Inl err
        | Inr cac \<Rightarrow> Inr \<lparr>scac_date = d, scac_segment_id = sid, scac_segment_name = sname,
              scac_cac = cac\<rparr>)"

text \<open>
  \<^verbatim>\<open>FROM segment_costs sc LEFT JOIN segment_acquisitions sa
       ON sc.date = sa.date AND sc.segment_id = sa.segment_id
     GROUP BY sc.date, sc.segment_id, sc.segment_name, sa.acquisitions\<close>
\<close>

definition segment_cac :: "database \<Rightarrow> sql_error + segment_cac_row list" where
  "segment_cac db =
     sql_rows segment_cac_select
       (group_by (\<lambda>(sc, sa). (sc_date sc, sc_segment_id sc, sc_segment_name sc,
                                map_option sa_acquisitions sa))
          (left_join (\<lambda>sc sa. sc_date sc = sa_date sa \<and> sc_segment_id sc = sa_segment_id sa)
             (segment_costs db) (segment_acquisitions db)))"

subsection \<open>Channel ROAS\<close>













subsection \<open>The five statements, in one transaction\<close>




section \<open>The views of \<^verbatim>\<open>calculate_metrics\<close> (src/app/etl/dags/marketing_etl_dag.py)\<close>

text \<open>
  The hourly DAG ends with \<^verbatim>\<open>calculate_metrics\<close>: it refreshes the three
  performance views and (re)defines \<^verbatim>\<open>analytics.segment_cac\<close> and
  \<^verbatim>\<open>analytics.channel_roas\<close> as plain views with its own SQL, written against the
  ORM column names. A plain view is evaluated when it is queried; \<open>dag_segment_cac\<close> and
  \<open>dag_channel_roas\<close> are the result of that query.
\<close>

text \<open>
  \<^verbatim>\<open>FROM conversions c JOIN user_segments us ON c.user_id = us.user_id
       JOIN segments s ON us.segment_id = s.segment_id
       JOIN campaigns ca ON c.campaign_id = ca.campaign_id
     WHERE c.conversion_type = 'new_customer'\<close>
\<close>

definition dag_segment_cac_join_rows ::
  "database \<Rightarrow> conversion \<Rightarrow> (conversion \<times> user_segment \<times> segment \<times> campaign) list" where
  "dag_segment_cac_join_rows db c =
     [(c, us, s, ca). us \<leftarrow> user_segments db, c_user_id c = us_user_id us,
                      s \<leftarrow> segments db, us_segment_id us = s_id s,
                      ca \<leftarrow> campaigns db, c_campaign_id c = Some (ca_id ca)]"

definition dag_segment_cac_join ::
  "database \<Rightarrow> (conversion \<times> user_segment \<times> segment \<times> campaign) list" where
  "dag_segment_cac_join db =
     filter (\<lambda>(c, us, s, ca). c_type c = ''new_customer'')
       (concat (map (dag_segment_cac_join_rows db) (conversions db)))"

text \<open>\<^verbatim>\<open>SUM(ca.spend_to_date) / NULLIF(COUNT(DISTINCT c.user_id), 0) AS cac\<close>\<close>

definition dag_segment_cac_select ::
  "(int \<times> string \<times> date) \<times> (conversion \<times> user_segment \<times> segment \<times> campaign) list
     \<Rightarrow> sql_error + segment_cac_row" where
  "dag_segment_cac_select =
     (\<lambda>((sid, sname, d), g).
        case sql_div (sql_sum (map (\<lambda>(c, us, s, ca). ca_spend ca) g))
               (NULLIF (Some (of_nat (count_distinct (map (\<lambda>(c, us, s, ca). c_user_id c) g)))) 0) of
          Inl err \<Rightarrow> Inl err
        | Inr cac \<Rightarrow> Inr \<lparr>scac_date = d, scac_segment_id = sid, scac_segment_name = sname,
              scac_cac = cac\<rparr>)"

definition dag_segment_cac :: "database \<Rightarrow> sql_error + segment_cac_row list" where
  "dag_segment_cac db =
     sql_rows dag_segment_cac_select
       (group_by (\<lambda>(c, us, s, ca). (s_id s, s_name s, DATE (c_timestamp c)))
          (dag_segment_cac_join db))"





section \<open>The hourly extract, transform and load\<close>


record hourly_bucket =
  hb_campaign_id :: "int option"
  hb_channel_id :: "int option"
  hb_event_date :: date
  hb_event_hour :: int
  hb_event_name :: string
  hb_unique_users :: nat
  hb_event_count :: nat

text \<open>
  \<^verbatim>\<open>df.groupby(['campaign_id', 'channel_id', 'event_date', 'event_hour', 'event_name'])\<close>:
  pandas groups with \<open>dropna=True\<close> and \<open>sort=True\<close> unless told otherwise, so a row with
  a missing value in a grouping column belongs to no group, and the groups come sorted
  by key. Of the grouping columns only \<open>campaign_id\<close> and \<open>channel_id\<close> are nullable in
  the table the batch is read from.
\<close>

definition bucket_key :: "user_event \<Rightarrow> (int \<times> int \<times> date \<times> int \<times> string) option" where
  "bucket_key e =
     (case e_campaign_id e of None \<Rightarrow> None
      | Some cid \<Rightarrow> (case e_channel_id e of None \<Rightarrow> None
          | Some chid \<Rightarrow> Some (cid, chid, DATE (e_timestamp e), HOUR (e_timestamp e), e_name e)))"

text \<open>\<^verbatim>\<open>.agg({'user_id': 'nunique', 'event_id': 'count'})\<close>, then the two renames.\<close>

definition transform_events_data :: "user_event list \<Rightarrow> hourly_bucket list" where
  "transform_events_data df =
     map (\<lambda>(cid, chid, d, h, nm).
            let g = filter (\<lambda>e. bucket_key e = Some (cid, chid, d, h, nm)) df
            in \<lparr>hb_campaign_id = Some cid, hb_channel_id = Some chid, hb_event_date = d,
                hb_event_hour = h, hb_event_name = nm,
                hb_unique_users = count_distinct (map e_user_id g),
                hb_event_count = length g\<rparr>)
       (sort (remdups [k. e \<leftarrow> df, Some k \<leftarrow> [bucket_key e]]))"







section \<open>The serving layer\<close>






subsection \<open>\<^verbatim>\<open>get_metrics\<close> of src/app/models/database.py and its endpoint\<close>





subsection \<open>\<^verbatim>\<open>generate_kpi_summary\<close> and \<^verbatim>\<open>get_metrics\<close> of src/app/api/mock_server.py\<close>













section \<open>Facts about the SQL clauses\<close>

lemma sql_rows_Inr:
  "(\<And>g. g \<in> set gs \<Longrightarrow> f g = Inr (h g)) \<Longrightarrow> sql_rows f gs = Inr (map h gs)"
  by (induction gs) auto



lemma group_by_mem:
  "(k, g) \<in> set (group_by key rows) \<longleftrightarrow> k \<in> key ` set rows \<and> g = filter (\<lambda>r. key r = k) rows"
  by (auto simp: group_by_def)

lemma group_by_nonempty: "(k, g) \<in> set (group_by key rows) \<Longrightarrow> g \<noteq> []"
  by (auto simp: group_by_mem filter_empty_conv)

lemma group_by_filter:
  "filter (\<lambda>(k, g). Q k) (group_by key rows) = group_by key (filter (\<lambda>r. Q (key r)) rows)"
proof -
  have a: "filter Q (remdups (map key rows)) = remdups (map key (filter (\<lambda>r. Q (key r)) rows))"
  proof -
    have "filter Q (remdups (map key rows)) = remdups (filter Q (map key rows))"
      by (rule remdups_filter[symmetric])
    also have "filter Q (map key rows) = map key (filter (\<lambda>r. Q (key r)) rows)"
      by (simp add: filter_map comp_def)
    finally show ?thesis .
  qed
  have "filter (\<lambda>(k, g). Q k) (group_by key rows)
        = map (\<lambda>k. (k, filter (\<lambda>r. key r = k) rows)) (filter Q (remdups (map key rows)))"
    by (simp add: group_by_def filter_map comp_def)
  also have "\<dots> = map (\<lambda>k. (k, filter (\<lambda>r. key r = k) rows))
                     (remdups (map key (filter (\<lambda>r. Q (key r)) rows)))"
    by (simp only: a)
  also have "\<dots> = group_by key (filter (\<lambda>r. Q (key r)) rows)"
    unfolding group_by_def
  proof (rule map_cong[OF refl])
    fix k assume "k \<in> set (remdups (map key (filter (\<lambda>r. Q (key r)) rows)))"
    then have "Q k" by auto
    then have "filter (\<lambda>r. key r = k) (filter (\<lambda>r. Q (key r)) rows) = filter (\<lambda>r. key r = k) rows"
      by (auto intro: filter_cong)
    then show "(k, filter (\<lambda>r. key r = k) rows) = (k, filter (\<lambda>r. key r = k) (filter (\<lambda>r. Q (key r)) rows))"
      by simp
  qed
  finally show ?thesis .
qed

lemma sql_rows_projr:
  "(\<And>g. \<exists>r. f g = Inr r) \<Longrightarrow> sql_rows f gs = Inr (map (\<lambda>g. projr (f g)) gs)"
  by (rule sql_rows_Inr) (metis sum.sel(2))

lemma concat_map_if:
  "concat (map (\<lambda>x. if P x then g x else []) xs) = concat (map g (filter P xs))"
  by (induction xs) simp_all

lemma filter_concat_map:
  "filter P (concat (map g xs)) = concat (map (\<lambda>x. filter P (g x)) xs)"
  by (induction xs) simp_all

lemma filter_all_or_none:
  "(\<And>x. x \<in> set xs \<Longrightarrow> P x = b) \<Longrightarrow> filter P xs = (if b then xs else [])"
  by (induction xs) auto

lemma filter_join:
  assumes "\<And>c x. x \<in> set (J c) \<Longrightarrow> P x = A c"
  shows "filter P (concat (map J cs)) = concat (map J (filter A cs))"
proof -
  have "filter P (J c) = (if A c then J c else [])" for c
    by (rule filter_all_or_none) (rule assms)
  then show ?thesis
    by (simp add: filter_concat_map concat_map_if)
qed

lemma concat_map_if_single:
  "concat (map (\<lambda>x. if P x then [f x] else []) xs) = map f (filter P xs)"
  by (induction xs) simp_all










lemma avg_conversion_value_eq:
  "avg_conversion_value n tot = Inr (if 0 < n then map_option (\<lambda>x. x / of_nat n) tot else Some 0)"
  by (cases tot) (auto simp: avg_conversion_value_def sql_div_def)




section \<open>The fields and default window of \<^verbatim>\<open>get_metrics\<close>\<close>





section \<open>The hourly buckets of \<^verbatim>\<open>transform_events_data\<close>\<close>








lemma transform_bucket:
  "b \<in> set (transform_events_data df) \<Longrightarrow>
     hb_event_count b = length (filter (\<lambda>e. e_campaign_id e = hb_campaign_id b \<and> e_channel_id e = hb_channel_id b
        \<and> DATE (e_timestamp e) = hb_event_date b \<and> HOUR (e_timestamp e) = hb_event_hour b \<and> e_name e = hb_event_name b) df)"
  apply (auto simp add: transform_events_data_def Let_def case_prod_unfold)
  apply (rule arg_cong[where f = length], rule filter_cong[OF refl])
  apply (auto simp: bucket_key_def split: option.splits)
  done



section \<open>Loading a slice twice\<close>





section \<open>The KPI summary\<close>











section \<open>Daily campaign performance: two conversions on one day\<close>

lemma campaign_performance_select_eq:
  "campaign_performance_select ((d, cid, cname, chid, chname), g) =
     Inr \<lparr>cp_date = d, cp_campaign_id = cid, cp_campaign_name = cname,
          cp_channel_id = chid, cp_channel_name = chname,
          cp_conversions = count_distinct (map (\<lambda>(c, ca, ch). c_user_id c) g),
          cp_total_conversion_value = sql_sum (map (\<lambda>(c, ca, ch). c_value c) g),
          cp_avg_conversion_value =
            (if 0 < count_distinct (map (\<lambda>(c, ca, ch). c_user_id c) g)
             then map_option (\<lambda>x. x / of_nat (count_distinct (map (\<lambda>(c, ca, ch). c_user_id c) g)))
                    (sql_sum (map (\<lambda>(c, ca, ch). c_value c) g))
             else Some 0)\<rparr>"
  by (simp add: campaign_performance_select_def Let_def avg_conversion_value_eq)

lemma campaign_performance_select_isr: "\<exists>r. campaign_performance_select kg = Inr r"
proof -
  obtain d cid cname chid chname g where "kg = ((d, cid, cname, chid, chname), g)"
    by (metis prod.collapse)
  then show ?thesis by (simp add: campaign_performance_select_eq)
qed

lemma daily_campaign_performance_eq:
  "daily_campaign_performance db =
     Inr (map (\<lambda>kg. projr (campaign_performance_select kg))
       (group_by (\<lambda>(c, ca, ch). (DATE (c_timestamp c), ca_id ca, ca_name ca, ch_id ch, ch_name ch))
          (campaign_join db)))"
  unfolding daily_campaign_performance_def
  by (rule sql_rows_projr) (rule campaign_performance_select_isr)

lemma campaign_join_rows_eq:
  "campaign_join_rows db c =
     concat (map (\<lambda>ca. map (\<lambda>ch. (c, ca, ch)) (filter (\<lambda>ch. ca_channel_id ca = Some (ch_id ch)) (channels db)))
       (filter (\<lambda>ca. c_campaign_id c = Some (ca_id ca)) (campaigns db)))"
  by (simp add: campaign_join_rows_def concat_map_if_single concat_map_if)


lemma campaign_join_rows_fact:
  "x \<in> set (campaign_join_rows db c) \<Longrightarrow> fst x = c \<and> c_campaign_id c = Some (ca_id (fst (snd x)))"
  by (auto simp: campaign_join_rows_def)

lemma campaign_join_filter:
  "filter (\<lambda>(c, ca, ch). DATE (c_timestamp c) = d \<and> ca_id ca = i) (campaign_join db) =
     concat (map (campaign_join_rows db)
       (filter (\<lambda>c. c_campaign_id c = Some i \<and> DATE (c_timestamp c) = d) (conversions db)))"
  unfolding campaign_join_def
  by (rule filter_join) (auto dest: campaign_join_rows_fact)

text \<open>
  Claim C6, as amended. When the conversions of campaign 1 on a day are exactly two, with
  values 50 and 70 and made by two different users, and campaign 1 and its channel exist,
  the row of \<open>campaign_performance\<close> for that day and campaign has \<open>conversions = 2\<close>,
  \<open>total_conversion_value = 120\<close> and \<open>avg_conversion_value = 60\<close>.
\<close>

theorem two_conversions_scenario:
  assumes two: "filter (\<lambda>c. c_campaign_id c = Some 1 \<and> DATE (c_timestamp c) = d) (conversions db) = [c1, c2]"
    and amounts: "c_value c1 = Some 50" "c_value c2 = Some 70"
    and distinct_users: "c_user_id c1 \<noteq> c_user_id c2"
    and one_campaign: "filter (\<lambda>ca. ca_id ca = 1) (campaigns db) = [ca]"
    and one_channel: "filter (\<lambda>ch. ca_channel_id ca = Some (ch_id ch)) (channels db) = [ch]"
  shows "\<exists>rows. daily_campaign_performance db = Inr rows \<and>
     filter (\<lambda>r. cp_date r = d \<and> cp_campaign_id r = 1) rows =
       [\<lparr>cp_date = d, cp_campaign_id = 1, cp_campaign_name = ca_name ca,
         cp_channel_id = ch_id ch, cp_channel_name = ch_name ch, cp_conversions = 2,
         cp_total_conversion_value = Some 120, cp_avg_conversion_value = Some 60\<rparr>]"
proof -
  let ?key = "\<lambda>(c, ca, ch). (DATE (c_timestamp c), ca_id ca, ca_name ca, ch_id ch, ch_name ch)"
  let ?row = "\<lambda>kg. projr (campaign_performance_select kg)"
  have "c1 \<in> set (filter (\<lambda>c. c_campaign_id c = Some 1 \<and> DATE (c_timestamp c) = d) (conversions db))"
    and "c2 \<in> set (filter (\<lambda>c. c_campaign_id c = Some 1 \<and> DATE (c_timestamp c) = d) (conversions db))"
    by (simp_all only: two list.set_intros)
  then have c1: "c_campaign_id c1 = Some 1 \<and> DATE (c_timestamp c1) = d"
    and c2: "c_campaign_id c2 = Some 1 \<and> DATE (c_timestamp c2) = d"
    by simp_all
  have "ca \<in> set (filter (\<lambda>ca. ca_id ca = 1) (campaigns db))"
    by (simp only: one_campaign list.set_intros)
  then have ca: "ca_id ca = 1"
    by simp
  have j1: "campaign_join_rows db c1 = [(c1, ca, ch)]"
    by (simp add: campaign_join_rows_eq c1 one_campaign one_channel)
  have j2: "campaign_join_rows db c2 = [(c2, ca, ch)]"
    by (simp add: campaign_join_rows_eq c2 one_campaign one_channel)
  have sel: "(\<lambda>r. cp_date r = d \<and> cp_campaign_id r = 1) \<circ> ?row =
               (\<lambda>(k, g). fst k = d \<and> fst (snd k) = 1)"
    by (auto simp: fun_eq_iff campaign_performance_select_eq)
  have "filter (\<lambda>r. cp_date r = d \<and> cp_campaign_id r = 1) (map ?row (group_by ?key (campaign_join db)))
        = map ?row (filter (\<lambda>(k, g). fst k = d \<and> fst (snd k) = 1) (group_by ?key (campaign_join db)))"
    by (simp only: filter_map sel)
  also have "\<dots> = map ?row (group_by ?key
                 (filter (\<lambda>(c, ca, ch). DATE (c_timestamp c) = d \<and> ca_id ca = 1) (campaign_join db)))"
    by (simp only: group_by_filter) (simp add: case_prod_unfold)
  also have "\<dots> = map ?row (group_by ?key [(c1, ca, ch), (c2, ca, ch)])"
    by (simp only: campaign_join_filter two) (simp add: j1 j2)
  also have "\<dots> = [\<lparr>cp_date = d, cp_campaign_id = 1, cp_campaign_name = ca_name ca,
         cp_channel_id = ch_id ch, cp_channel_name = ch_name ch, cp_conversions = 2,
         cp_total_conversion_value = Some 120, cp_avg_conversion_value = Some 60\<rparr>]"
    using distinct_users by (simp add: group_by_def c1 c2 ca campaign_performance_select_eq
        count_distinct_def sql_sum_def amounts)
  finally show ?thesis
    by (simp add: daily_campaign_performance_eq)
qed

text \<open>
  Two campaigns on two channels; on day 10 campaign 1 has two conversions, of 50 and 70,
  by two users. In \<open>db6_same_user\<close> the same user made both.
\<close>

definition db6 :: database where
  "db6 = \<lparr>channels = [\<lparr>ch_id = 1, ch_name = ''Facebook Ads''\<rparr>, \<lparr>ch_id = 2, ch_name = ''Google Ads''\<rparr>],
          segments = [\<lparr>s_id = 1, s_name = ''New Visitors''\<rparr>],
          campaigns = [\<lparr>ca_id = 1, ca_name = ''Spring 2024 Shoes Campaign'', ca_channel_id = Some 1, ca_spend = Some 300\<rparr>,
                       \<lparr>ca_id = 2, ca_name = ''Christmas Special 2023'', ca_channel_id = Some 2, ca_spend = Some 90\<rparr>],
          user_segments = [\<lparr>us_user_id = ''user_1'', us_segment_id = 1\<rparr>],
          user_events = [],
          conversions =
            [\<lparr>c_id = 1, c_user_id = ''user_1'', c_type = ''purchase'', c_value = Some 50,
              c_campaign_id = Some 1, c_channel_id = Some 1, c_timestamp = 864005\<rparr>,
             \<lparr>c_id = 2, c_user_id = ''user_3'', c_type = ''lead'', c_value = Some 20,
              c_campaign_id = Some 2, c_channel_id = Some 2, c_timestamp = 864100\<rparr>,
             \<lparr>c_id = 3, c_user_id = ''user_2'', c_type = ''lead'', c_value = Some 70,
              c_campaign_id = Some 1, c_channel_id = Some 1, c_timestamp = 871200\<rparr>]\<rparr>"

definition db6_same_user :: database where
  "db6_same_user = db6\<lparr>conversions :=
            [\<lparr>c_id = 1, c_user_id = ''user_1'', c_type = ''purchase'', c_value = Some 50,
              c_campaign_id = Some 1, c_channel_id = Some 1, c_timestamp = 864005\<rparr>,
             \<lparr>c_id = 2, c_user_id = ''user_1'', c_type = ''purchase'', c_value = Some 70,
              c_campaign_id = Some 1, c_channel_id = Some 1, c_timestamp = 871200\<rparr>]\<rparr>"

text \<open>
  Claim C6 as stated fails: two conversions of 50 and 70 for campaign 1 on day 10 by the
  same user count as one distinct user, and the average is 120.
\<close>

theorem two_conversions_same_user:
  "map (\<lambda>c. (c_user_id c, c_value c, c_campaign_id c, DATE (c_timestamp c))) (conversions db6_same_user) =
     [(''user_1'', Some 50, Some 1, 10), (''user_1'', Some 70, Some 1, 10)]
   \<and> daily_campaign_performance db6_same_user =
     Inr [\<lparr>cp_date = 10, cp_campaign_id = 1, cp_campaign_name = ''Spring 2024 Shoes Campaign'',
           cp_channel_id = 1, cp_channel_name = ''Facebook Ads'', cp_conversions = 1,
           cp_total_conversion_value = Some 120, cp_avg_conversion_value = Some 120\<rparr>]"
  by code_simp

text \<open>The scenario of C6 at \<open>db6\<close>.\<close>

theorem two_conversions_scenario_witness:
  "filter (\<lambda>c. c_campaign_id c = Some 1 \<and> DATE (c_timestamp c) = 10) (conversions db6) =
     [conversions db6 ! 0, conversions db6 ! 2]
   \<and> c_value (conversions db6 ! 0) = Some 50 \<and> c_value (conversions db6 ! 2) = Some 70
   \<and> c_user_id (conversions db6 ! 0) \<noteq> c_user_id (conversions db6 ! 2)
   \<and> filter (\<lambda>ca. ca_id ca = 1) (campaigns db6) = [campaigns db6 ! 0]
   \<and> filter (\<lambda>ch. ca_channel_id (campaigns db6 ! 0) = Some (ch_id ch)) (channels db6) = [channels db6 ! 0]
   \<and> (\<exists>rows. daily_campaign_performance db6 = Inr rows \<and>
        filter (\<lambda>r. cp_date r = 10 \<and> cp_campaign_id r = 1) rows =
          [\<lparr>cp_date = 10, cp_campaign_id = 1, cp_campaign_name = ''Spring 2024 Shoes Campaign'',
            cp_channel_id = 1, cp_channel_name = ''Facebook Ads'', cp_conversions = 2,
            cp_total_conversion_value = Some 120, cp_avg_conversion_value = Some 60\<rparr>])"
proof -
  have h1: "filter (\<lambda>c. c_campaign_id c = Some 1 \<and> DATE (c_timestamp c) = 10) (conversions db6) =
     [conversions db6 ! 0, conversions db6 ! 2]"
    by (simp add: db6_def DATE_def)
  have h2: "c_value (conversions db6 ! 0) = Some 50" "c_value (conversions db6 ! 2) = Some 70"
    by (simp_all add: db6_def)
  have h3: "c_user_id (conversions db6 ! 0) \<noteq> c_user_id (conversions db6 ! 2)"
    by (simp add: db6_def)
  have h4: "filter (\<lambda>ca. ca_id ca = 1) (campaigns db6) = [campaigns db6 ! 0]"
    by (simp add: db6_def)
  have h5: "filter (\<lambda>ch. ca_channel_id (campaigns db6 ! 0) = Some (ch_id ch)) (channels db6) = [channels db6 ! 0]"
    by (simp add: db6_def)
  have "ca_name (campaigns db6 ! 0) = ''Spring 2024 Shoes Campaign''"
    "ch_id (channels db6 ! 0) = 1" "ch_name (channels db6 ! 0) = ''Facebook Ads''"
    by (simp_all add: db6_def)
  with two_conversions_scenario[OF h1 h2 h3 h4 h5] h1 h2 h3 h4 h5
  show ?thesis by simp
qed

section \<open>The rows of the other performance views\<close>







section \<open>The left joins of segment CAC and channel ROAS\<close>







text \<open>
  The denominator in the words of the specification: the distinct users of a segment
  with a conversion of type \<open>purchase\<close> on a date.
\<close>

definition purchasers :: "database \<Rightarrow> date \<Rightarrow> int \<Rightarrow> string list" where
  "purchasers db d sid =
     remdups [c_user_id c. c \<leftarrow> conversions db, c_type c = ''purchase'', DATE (c_timestamp c) = d,
                           us \<leftarrow> user_segments db, c_user_id c = us_user_id us, us_segment_id us = sid]"










section \<open>Segment CAC against its specification\<close>

text \<open>
  The numerator in the words of the specification: the campaigns whose events touched
  a segment on a date, each once, and the CAC the specification states for them.
\<close>

definition touching_campaigns :: "database \<Rightarrow> date \<Rightarrow> int \<Rightarrow> campaign list" where
  "touching_campaigns db d sid =
     remdups [ca. e \<leftarrow> user_events db, DATE (e_timestamp e) = d,
                  ca \<leftarrow> campaigns db, e_campaign_id e = Some (ca_id ca),
                  us \<leftarrow> user_segments db, e_user_id e = us_user_id us, us_segment_id us = sid]"

definition spec_segment_cac :: "database \<Rightarrow> date \<Rightarrow> int \<Rightarrow> rat" where
  "spec_segment_cac db d sid =
     (let n = length (purchasers db d sid)
      in if 0 < n
         then (\<Sum>ca\<leftarrow>touching_campaigns db d sid. COALESCE (ca_spend ca) 0 / 30) / of_nat n
         else 0)"

text \<open>
  One campaign with a spend of 30 and one user of segment 1, who on day 10 saw two events
  of the campaign and made one purchase.
\<close>

definition db1 :: database where
  "db1 = \<lparr>channels = [\<lparr>ch_id = 1, ch_name = ''Facebook Ads''\<rparr>],
          segments = [\<lparr>s_id = 1, s_name = ''New Visitors''\<rparr>],
          campaigns = [\<lparr>ca_id = 1, ca_name = ''Spring 2024 Shoes Campaign'', ca_channel_id = Some 1,
                        ca_spend = Some 30\<rparr>],
          user_segments = [\<lparr>us_user_id = ''user_1'', us_segment_id = 1\<rparr>],
          user_events =
            [\<lparr>e_id = 1, e_user_id = ''user_1'', e_name = ''impression'', e_timestamp = 864000,
              e_campaign_id = Some 1, e_channel_id = Some 1\<rparr>,
             \<lparr>e_id = 2, e_user_id = ''user_1'', e_name = ''click'', e_timestamp = 864060,
              e_campaign_id = Some 1, e_channel_id = Some 1\<rparr>],
          conversions =
            [\<lparr>c_id = 1, c_user_id = ''user_1'', c_type = ''purchase'', c_value = Some 50,
              c_campaign_id = Some 1, c_channel_id = Some 1, c_timestamp = 867600\<rparr>]\<rparr>"

text \<open>
  What \<open>segment_costs\<close> stores in general: the groups are keyed by the campaign and its
  spend, so every row of a group carries the same spend, and the sum is that spend times
  the number of joined event rows of the group.
\<close>

lemma sql_sum_replicate:
  "sql_sum (replicate n v) = (if n = 0 then None else map_option (\<lambda>x. of_nat n * x) v)"
proof (cases v)
  case None
  have "[w. Some w \<leftarrow> replicate n (None :: rat option)] = []"
    by (induction n) simp_all
  with None show ?thesis
    by (simp add: sql_sum_def)
next
  case (Some x)
  have "[w. Some w \<leftarrow> replicate n (Some x)] = replicate n x"
    by (induction n) simp_all
  with Some show ?thesis
    by (cases n) (simp_all add: sql_sum_def sum_list_replicate algebra_simps)
qed

lemma segment_costs_daily_spend:
  assumes "sc \<in> set (segment_costs db)"
  shows "\<exists>ca\<in>set (campaigns db). ca_id ca = sc_campaign_id sc \<and>
           sc_daily_spend sc =
             map_option (\<lambda>x. of_nat (length (filter (\<lambda>(e, ca', us, s).
                 DATE (e_timestamp e) = sc_date sc \<and> us_segment_id us = sc_segment_id sc
                 \<and> s_name s = sc_segment_name sc \<and> ca_id ca' = ca_id ca \<and> ca_spend ca' = ca_spend ca)
               (segment_costs_join db))) * x / 30) (ca_spend ca)"
proof -
  let ?key = "\<lambda>(e, ca, us, s). (DATE (e_timestamp e), us_segment_id us, s_name s, ca_id ca, ca_spend ca)"
  from assms obtain k g where kg: "(k, g) \<in> set (group_by ?key (segment_costs_join db))"
    and sc: "sc = (case k of (d, sid, sname, caid, spend) \<Rightarrow>
            \<lparr>sc_date = d, sc_segment_id = sid, sc_segment_name = sname, sc_campaign_id = caid,
             sc_daily_spend = daily_spend_of (map (\<lambda>(e, ca, us, s). ca_spend ca) g)\<rparr>)"
    by (auto simp: segment_costs_def)
  from kg have g: "g = filter (\<lambda>r. ?key r = k) (segment_costs_join db)"
    and "k \<in> ?key ` set (segment_costs_join db)"
    by (simp_all add: group_by_mem)
  then obtain e ca us s where j: "(e, ca, us, s) \<in> set (segment_costs_join db)"
    and k: "k = (DATE (e_timestamp e), us_segment_id us, s_name s, ca_id ca, ca_spend ca)"
    by auto
  have spends: "map (\<lambda>(e, ca, us, s). ca_spend ca) g = replicate (length g) (ca_spend ca)"
    unfolding g k by (rule replicate_eqI) auto
  have "g \<noteq> []"
    using kg by (rule group_by_nonempty)
  then have ds: "daily_spend_of (map (\<lambda>(e, ca, us, s). ca_spend ca) g)
               = map_option (\<lambda>x. of_nat (length g) * x / 30) (ca_spend ca)"
    by (cases "ca_spend ca") (simp_all add: daily_spend_of_def spends sql_sum_replicate)
  have len: "g = filter (\<lambda>(e', ca', us', s'). DATE (e_timestamp e') = DATE (e_timestamp e)
                 \<and> us_segment_id us' = us_segment_id us \<and> s_name s' = s_name s
                 \<and> ca_id ca' = ca_id ca \<and> ca_spend ca' = ca_spend ca) (segment_costs_join db)"
    unfolding g k by (rule filter_cong) auto
  from j have "ca \<in> set (campaigns db)"
    by (auto simp: segment_costs_join_def segment_costs_join_rows_def)
  moreover have "ca_id ca = sc_campaign_id sc" "sc_date sc = DATE (e_timestamp e)"
    "sc_segment_id sc = us_segment_id us" "sc_segment_name sc = s_name s"
    "sc_daily_spend sc = map_option (\<lambda>x. of_nat (length g) * x / 30) (ca_spend ca)"
    by (simp_all add: sc k ds)
  ultimately show ?thesis
    using len by (intro bexI[of _ ca]) simp_all
qed

text \<open>
  Claim C1 at \<open>db1\<close>. The specification gives a CAC of (30 / 30) / 1 = 1 for segment 1 on
  day 10. \<open>segment_costs\<close> sums the spend of the campaign once per joined event, so its
  daily spend is 60 / 30 = 2 and the stored CAC is 2. The view that
  \<^verbatim>\<open>calculate_metrics\<close> defines has no row for the segment at all: it keeps only
  conversions of type \<open>new_customer\<close>.
\<close>

theorem segment_cac_counts_spend_per_event:
  "segment_costs db1 =
     [\<lparr>sc_date = 10, sc_segment_id = 1, sc_segment_name = ''New Visitors'', sc_campaign_id = 1,
       sc_daily_spend = Some 2\<rparr>]
   \<and> segment_cac db1 =
     Inr [\<lparr>scac_date = 10, scac_segment_id = 1, scac_segment_name = ''New Visitors'',
           scac_cac = Some 2\<rparr>]
   \<and> map ca_id (touching_campaigns db1 10 1) = [1]
   \<and> purchasers db1 10 1 = [''user_1'']
   \<and> spec_segment_cac db1 10 1 = 1
   \<and> dag_segment_cac db1 = Inr []"
  by code_simp

section \<open>Division by zero\<close>


























section \<open>Left-join completeness\<close>























section \<open>Facts with a reference that does not exist\<close>

text \<open>
  A foreign key that names a row that is not there (NULL names none), the number of
  facts that carry one, and the database after one more fact has been appended.
\<close>

definition dangling :: "int list \<Rightarrow> int option \<Rightarrow> bool" where
  "dangling ids ref = (case ref of None \<Rightarrow> False | Some i \<Rightarrow> i \<notin> set ids)"




lemma dangling_no_match: "dangling (map f xs) ref \<Longrightarrow> filter (\<lambda>x. ref = Some (f x)) xs = []"
  by (auto simp: dangling_def filter_empty_conv split: option.splits)


























section \<open>Keys and order of the served rows\<close>






























end
